theory Spec2Isabelle
  imports
    Complex_Main
    "HOL-Library.Char_ord"
    "HOL-Library.List_Lexorder"
    "HOL-Library.Multiset"
    "HOL-Library.Word"
begin

section \<open>Python strings\<close>

text \<open>
  A Python \<open>str\<close> is modelled as a \<open>string\<close> whose characters are code points below
  256 (ASCII and Latin-1). \<open>str.isspace\<close> and \<open>str.lower\<close> are written out for that
  range; code points from 256 on are outside the model.
\<close>

definition py_isspace :: "char \<Rightarrow> bool" where
  "py_isspace c =
     (of_char c \<in> {9, 10, 11, 12, 13, 28, 29, 30, 31, 32, 133, 160 :: nat})"

definition py_lower_char :: "char \<Rightarrow> char" where
  "py_lower_char c =
     (let n = (of_char c :: nat)
      in if (65 \<le> n \<and> n \<le> 90) \<or> (192 \<le> n \<and> n \<le> 222 \<and> n \<noteq> 215)
         then char_of (n + 32) else c)"

text \<open>\<open>s.strip()\<close>: leading and trailing whitespace removed.\<close>

definition py_strip :: "string \<Rightarrow> string" where
  "py_strip s = rev (dropWhile py_isspace (rev (dropWhile py_isspace s)))"

text \<open>\<open>s.lower()\<close>.\<close>

definition py_lower :: "string \<Rightarrow> string" where
  "py_lower s = map py_lower_char s"

text \<open>
  \<open>s.replace(a, r)\<close> for a pattern \<open>a\<close> of one character. The pandas accessor
  \<open>.str.replace\<close> treats a pattern of one character as a literal, so
  \<open>.str.replace('.', '')\<close> deletes the periods and nothing else.
\<close>

definition py_replace_char :: "char \<Rightarrow> string \<Rightarrow> string \<Rightarrow> string" where
  "py_replace_char a r s = concat (map (\<lambda>c. if c = a then r else [c]) s)"

text \<open>
  \<open>streamlit_app.py\<close>, line 15:
  \<^verbatim>\<open>df.columns.str.strip().str.lower().str.replace(' ', '_').str.replace('.', '')\<close>
\<close>

definition normalize_name :: "string \<Rightarrow> string" where
  "normalize_name s =
     py_replace_char (CHR ''.'') ''''
       (py_replace_char (CHR '' '') ''_'' (py_lower (py_strip s)))"

text \<open>
  \<open>app.py\<close>, line 25:
  \<^verbatim>\<open>df.columns.str.strip().str.lower().str.replace(' ', '_')\<close>
\<close>

definition normalize_name_app :: "string \<Rightarrow> string" where
  "normalize_name_app s = py_replace_char (CHR '' '') ''_'' (py_lower (py_strip s))"

text \<open>
  The renaming as the specification words it: trim whitespace, lower-case, replace
  spaces and periods with underscores. It is compared with \<open>normalize_name\<close> below.
\<close>

definition spec_rename :: "string \<Rightarrow> string" where
  "spec_rename s =
     py_replace_char (CHR ''.'') ''_''
       (py_replace_char (CHR '' '') ''_'' (py_lower (py_strip s)))"

section \<open>Data frames and \<open>clean_data\<close>\<close>

text \<open>
  A cell of a frame read by \<open>pd.read_csv\<close>: a missing value (\<open>NaN\<close>), a number, a
  text, and, once \<open>pd.to_datetime\<close> has run, a timestamp (nanoseconds since the epoch)
  or the null date \<open>NaT\<close>. A number cell holds the integer that the CSV cell
  denotes; \<open>clean_data\<close> does no arithmetic on it.
\<close>

datatype cell = NaN | Num int | Str string | Timestamp int | NaT

text \<open>A frame is column-major, as in pandas: the labelled columns in their order.\<close>

type_synonym dataframe = "(string \<times> cell list) list"

definition columns :: "dataframe \<Rightarrow> string list" where
  "columns df = map fst df"

datatype error = IndexError | KeyError | ValueError | SchemaError

definition isna :: "cell \<Rightarrow> bool" where
  "isna c = (c = NaN \<or> c = NaT)"

text \<open>\<open>series.fillna(v)\<close>.\<close>

definition fillna :: "cell \<Rightarrow> cell list \<Rightarrow> cell list" where
  "fillna v col = map (\<lambda>c. if isna c then v else c) col"

text \<open>
  \<open>pd.to_datetime(series, errors='coerce')\<close>. What pandas accepts as a date is not
  part of the repository; it is the parameter \<open>parse\<close>, which sees the whole column
  (pandas may infer the format from it) and the cell. A cell with no reading becomes
  \<open>NaT\<close>; the column keeps its length.
\<close>

definition to_datetime :: "(cell list \<Rightarrow> cell \<Rightarrow> int option) \<Rightarrow> cell list \<Rightarrow> cell list" where
  "to_datetime parse col =
     map (\<lambda>c. case parse col c of Some t \<Rightarrow> Timestamp t | None \<Rightarrow> NaT) col"

text \<open>\<open>df[name] = f(df[name])\<close>: every column labelled \<open>name\<close> is replaced.\<close>

definition assign :: "string \<Rightarrow> (cell list \<Rightarrow> cell list) \<Rightarrow> dataframe \<Rightarrow> dataframe" where
  "assign name f df = map (\<lambda>(n, col). if n = name then (n, f col) else (n, col)) df"

text \<open>
  \<open>clean_data\<close>, \<open>streamlit_app.py\<close> lines 7 to 25. When two columns are both
  labelled \<open>date\<close> after the renaming, \<open>df['date']\<close> is a frame and \<open>pd.to_datetime\<close>
  raises \<open>ValueError\<close>.
\<close>

definition clean_data :: "(cell list \<Rightarrow> cell \<Rightarrow> int option) \<Rightarrow> dataframe \<Rightarrow> error + dataframe" where
  "clean_data parse df =
     (let df1 = map (\<lambda>(n, col). (normalize_name n, col)) df
      in if ''date'' \<in> set (columns df1) \<and> count_list (columns df1) ''date'' > 1
         then Inl ValueError
         else
           let df2 = (if ''date'' \<in> set (columns df1)
                      then assign ''date'' (to_datetime parse) df1 else df1);
               df3 = (if ''engagements'' \<in> set (columns df2)
                      then assign ''engagements'' (fillna (Num 0)) df2 else df2)
           in Inr df3)"


section \<open>Validation and the page\<close>

definition required_columns :: "string list" where
  "required_columns =
     [''date'', ''platform'', ''sentiment'', ''location'', ''engagements'', ''media_type'']"


section \<open>The Dataset and the aggregations\<close>

text \<open>
  One row of the cleaned frame, read at the six columns. A label is a text; a label
  cell that is empty in the CSV is \<open>NaN\<close> in pandas: \<open>None\<close> here. The date is
  \<open>None\<close> for \<open>NaT\<close>. The engagements are the integer counts that the page prints
  with \<open>int(...)\<close>, in a column of dtype \<open>int64\<close>: a 64-bit word, read as a signed
  number by \<open>sint\<close>, whose sums wrap around as those of numpy do. (A column that had a
  missing cell is \<open>float64\<close> after \<open>fillna(0)\<close>; its integer values add as the words
  do while the sums stay below \<open>2^53\<close>, and the rounding beyond that is outside the
  model.) A Dataset is the list of the rows; \<open>df[c]\<close> is the list of the field \<open>c\<close> of
  the rows.
\<close>

record post =
  date :: "int option"
  platform :: "string option"
  sentiment :: "string option"
  location :: "string option"
  engagements :: "64 word"
  media_type :: "string option"

text \<open>The values that are present, in their order (\<open>dropna\<close>).\<close>

definition dropna :: "'a option list \<Rightarrow> 'a list" where
  "dropna xs = List.map_filter (\<lambda>x. x) xs"

text \<open>The distinct values in the order of their first occurrence.\<close>

definition first_seen :: "'a list \<Rightarrow> 'a list" where
  "first_seen xs = rev (remdups (rev xs))"

text \<open>
  \<open>sort_values(ascending=False)\<close>: descending by the metric. Rows of equal metric are
  kept in their previous order here, as pandas does on small tables; the order of
  equal rows is not fixed by pandas in general, and no theorem below depends on it.
\<close>

definition sort_desc :: "('r \<Rightarrow> int) \<Rightarrow> 'r list \<Rightarrow> 'r list" where
  "sort_desc f xs = sort_key (\<lambda>r. - f r) xs"

text \<open>
  \<open>series.value_counts()\<close>: missing values dropped, one row per distinct value with
  the number of its occurrences, descending by that number. A count is at most the
  number of rows of the frame, which memory keeps far below \<open>2^63\<close>: it is a \<open>nat\<close>.
\<close>

definition value_counts :: "'a option list \<Rightarrow> ('a \<times> nat) list" where
  "value_counts xs =
     (let ys = dropna xs
      in sort_desc (\<lambda>r. int (snd r)) (map (\<lambda>k. (k, count_list ys k)) (first_seen ys)))"

text \<open>
  \<open>t['percentage'] = (t['count'] / t['count'].sum()) * 100\<close>, in exact arithmetic.
  On the empty table the column is empty and nothing is divided.
\<close>

definition with_percentage :: "('a \<times> nat) list \<Rightarrow> ('a \<times> nat \<times> rat) list" where
  "with_percentage t =
     (let s = sum_list (map snd t)
      in map (\<lambda>(k, c). (k, c, (of_nat c / of_nat s) * 100)) t)"

text \<open>
  \<open>df.groupby(key)[val].sum()\<close>: rows with a missing key dropped, one row per distinct
  key in ascending order of the keys, with the sum of the values of its rows. The sum
  is that of \<open>int64\<close>: it wraps around modulo \<open>2^64\<close>.
\<close>

definition groupby_sum ::
  "('r \<Rightarrow> 'k::linorder option) \<Rightarrow> ('r \<Rightarrow> 64 word) \<Rightarrow> 'r list \<Rightarrow> ('k \<times> 64 word) list" where
  "groupby_sum key val ds =
     map (\<lambda>k. (k, sum_list (map val (filter (\<lambda>r. key r = Some k) ds))))
       (sort (remdups (dropna (map key ds))))"

text \<open>\<open>streamlit_app.py\<close>, lines 87 to 89.\<close>

definition sentiment_counts :: "post list \<Rightarrow> (string \<times> nat \<times> rat) list" where
  "sentiment_counts df = with_percentage (value_counts (map sentiment df))"

text \<open>\<open>streamlit_app.py\<close>, line 102.\<close>

definition df_engagements_daily :: "post list \<Rightarrow> (int \<times> 64 word) list" where
  "df_engagements_daily df = groupby_sum date engagements df"

text \<open>\<open>streamlit_app.py\<close>, line 116. The sums are sorted as signed numbers.\<close>

definition platform_engagements :: "post list \<Rightarrow> (string \<times> 64 word) list" where
  "platform_engagements df =
     sort_desc (\<lambda>r. sint (snd r)) (groupby_sum platform engagements df)"

text \<open>\<open>streamlit_app.py\<close>, lines 130 to 132.\<close>

definition media_type_counts :: "post list \<Rightarrow> (string \<times> nat \<times> rat) list" where
  "media_type_counts df = with_percentage (value_counts (map media_type df))"

text \<open>\<open>streamlit_app.py\<close>, line 145.\<close>

definition location_engagements :: "post list \<Rightarrow> (string \<times> 64 word) list" where
  "location_engagements df =
     take 5 (sort_desc (\<lambda>r. sint (snd r)) (groupby_sum location engagements df))"


section \<open>Summary tables and \<open>generate_insights\<close>\<close>

text \<open>
  The five tables that the page passes to \<open>generate_insights\<close>, with the columns each
  has: \<open>sentiment_counts\<close> (sentiment, count, percentage), \<open>df_engagements_daily\<close>
  (date, engagements), \<open>platform_engagements\<close> (platform, engagements),
  \<open>media_type_counts\<close> (media_type, count, percentage) and \<open>location_engagements\<close>
  (location, engagements).
\<close>

datatype summary =
    SentimentCounts "(string \<times> nat \<times> rat) list"
  | EngagementsDaily "(int \<times> 64 word) list"
  | PlatformEngagements "(string \<times> 64 word) list"
  | MediaTypeCounts "(string \<times> nat \<times> rat) list"
  | LocationEngagements "(string \<times> 64 word) list"

text \<open>\<open>len(data)\<close>.\<close>

fun nrows :: "summary \<Rightarrow> nat" where
  "nrows (SentimentCounts rs) = length rs"
| "nrows (EngagementsDaily rs) = length rs"
| "nrows (PlatformEngagements rs) = length rs"
| "nrows (MediaTypeCounts rs) = length rs"
| "nrows (LocationEngagements rs) = length rs"

text \<open>
  \<open>data[c]\<close> for each column the function reads: the column, or \<open>KeyError\<close> when the
  table has no column of that name.
\<close>

fun col_label :: "string \<Rightarrow> summary \<Rightarrow> error + string list" where
  "col_label c (SentimentCounts rs) =
     (if c = ''sentiment'' then Inr (map fst rs) else Inl KeyError)"
| "col_label c (PlatformEngagements rs) =
     (if c = ''platform'' then Inr (map fst rs) else Inl KeyError)"
| "col_label c (MediaTypeCounts rs) =
     (if c = ''media_type'' then Inr (map fst rs) else Inl KeyError)"
| "col_label c (LocationEngagements rs) =
     (if c = ''location'' then Inr (map fst rs) else Inl KeyError)"
| "col_label c (EngagementsDaily rs) = Inl KeyError"

fun col_count :: "summary \<Rightarrow> error + nat list" where
  "col_count (SentimentCounts rs) = Inr (map (\<lambda>r. fst (snd r)) rs)"
| "col_count (MediaTypeCounts rs) = Inr (map (\<lambda>r. fst (snd r)) rs)"
| "col_count _ = Inl KeyError"

fun col_percentage :: "summary \<Rightarrow> error + rat list" where
  "col_percentage (SentimentCounts rs) = Inr (map (\<lambda>r. snd (snd r)) rs)"
| "col_percentage (MediaTypeCounts rs) = Inr (map (\<lambda>r. snd (snd r)) rs)"
| "col_percentage _ = Inl KeyError"

fun col_engagements :: "summary \<Rightarrow> error + 64 word list" where
  "col_engagements (EngagementsDaily rs) = Inr (map snd rs)"
| "col_engagements (PlatformEngagements rs) = Inr (map snd rs)"
| "col_engagements (LocationEngagements rs) = Inr (map snd rs)"
| "col_engagements _ = Inl KeyError"

fun col_date :: "summary \<Rightarrow> error + int list" where
  "col_date (EngagementsDaily rs) = Inr (map fst rs)"
| "col_date _ = Inl KeyError"

text \<open>Sequencing of steps that may raise: the first error ends the call.\<close>

definition bnd :: "error + 'a \<Rightarrow> ('a \<Rightarrow> error + 'b) \<Rightarrow> error + 'b" where
  "bnd m f = (case m of Inl e \<Rightarrow> Inl e | Inr x \<Rightarrow> f x)"

text \<open>
  \<open>data.iloc[i][c]\<close>: \<open>IndexError\<close> when the table has no row \<open>i\<close>, then \<open>KeyError\<close>
  when it has no column \<open>c\<close>.
\<close>

definition iloc :: "summary \<Rightarrow> nat \<Rightarrow> (summary \<Rightarrow> error + 'a list) \<Rightarrow> error + 'a" where
  "iloc data i col =
     (if i < nrows data then bnd (col data) (\<lambda>xs. Inr (xs ! i)) else Inl IndexError)"

text \<open>The position of the first occurrence of a value that occurs in the list.\<close>

fun index_of :: "'a \<Rightarrow> 'a list \<Rightarrow> nat" where
  "index_of v [] = 0"
| "index_of v (x # xs) = (if x = v then 0 else Suc (index_of v xs))"

text \<open>
  \<open>series.idxmax()\<close> and \<open>series.idxmin()\<close> on a table indexed 0, 1, ...: the row of
  the first greatest (least) value, the values compared as signed numbers;
  \<open>ValueError\<close> on the empty series.
\<close>

definition idxmax :: "64 word list \<Rightarrow> error + nat" where
  "idxmax xs =
     (if xs = [] then Inl ValueError
      else Inr (index_of (Max (set (map sint xs))) (map sint xs)))"

definition idxmin :: "64 word list \<Rightarrow> error + nat" where
  "idxmin xs =
     (if xs = [] then Inl ValueError
      else Inr (index_of (Min (set (map sint xs))) (map sint xs)))"

text \<open>
  \<open>series.mean()\<close>: pandas adds the \<open>int64\<close> values as \<open>float64\<close>, so this sum does
  not wrap around; it is taken in exact arithmetic here.
\<close>

definition mean :: "64 word list \<Rightarrow> rat" where
  "mean xs = of_int (sum_list (map sint xs)) / of_nat (length xs)"

text \<open>
  A sentence is the f-string as its pieces: the literal text and the formatted values.
  \<open>Percent1\<close> is \<open>{x:.1f}\<close>, \<open>Whole\<close> is \<open>{int(x)}\<close> of an \<open>int64\<close>, \<open>Day\<close> is
  \<open>{d.strftime('%Y-%m-%d')}\<close>, \<open>Thousands0\<close> is \<open>{x:,.0f}\<close>, \<open>Label\<close> is a label
  printed as it is.
\<close>

datatype piece =
  Lit string | Label string | Percent1 rat | Whole int | Day int | Thousands0 rat

type_synonym sentence = "piece list"

text \<open>
  Lines 32 to 34:
  \<^verbatim>\<open>(data[data['sentiment'] == l]['count'].sum() / total_sentiment * 100) if total_sentiment > 0 else 0\<close>
\<close>

definition percent_of :: "string \<Rightarrow> summary \<Rightarrow> nat \<Rightarrow> error + rat" where
  "percent_of l data total_sentiment =
     (if total_sentiment > 0
      then bnd (col_label ''sentiment'' data) (\<lambda>ls.
           bnd (col_count data) (\<lambda>cs.
           Inr ((of_nat (sum_list (map snd (filter (\<lambda>r. fst r = l) (zip ls cs))))
                  / of_nat total_sentiment) * 100)))
      else Inr 0)"

text \<open>Lines 31 to 37.\<close>

definition insights_pie_sentiment :: "summary \<Rightarrow> error + sentence list" where
  "insights_pie_sentiment data =
     bnd (col_count data) (\<lambda>cs.
     let total_sentiment = sum_list cs in
     bnd (percent_of ''Positive'' data total_sentiment) (\<lambda>positive_percent.
     bnd (percent_of ''Negative'' data total_sentiment) (\<lambda>negative_percent.
     bnd (percent_of ''Neutral'' data total_sentiment) (\<lambda>neutral_percent.
     bnd (iloc data 0 (col_label ''sentiment'')) (\<lambda>s0.
     bnd (iloc data 0 col_percentage) (\<lambda>p0.
     Inr [[Lit ''1. A majority of the sentiment is **'', Label s0, Lit ''** ('',
           Percent1 p0, Lit ''%).''],
          [Lit ''2. Approximately **'', Percent1 positive_percent,
           Lit ''%** of the mentions are positive, indicating a generally favorable perception.''],
          [Lit ''3. Negative sentiment accounts for **'', Percent1 negative_percent,
           Lit ''%**, which might indicate areas for improvement or concerns.'']]))))))"

text \<open>Lines 39 to 45.\<close>

definition insights_line_engagement :: "summary \<Rightarrow> error + sentence list" where
  "insights_line_engagement data =
     bnd (col_engagements data) (\<lambda>es.
     bnd (idxmax es) (\<lambda>peak.
     bnd (idxmin es) (\<lambda>low.
     let total_engagements = sum_list es;
         avg_engagements = mean es in
     bnd (col_date data) (\<lambda>ds.
     Inr [[Lit ''1. Peak engagement occurred on **'', Day (ds ! peak), Lit ''** with **'',
           Whole (sint (es ! peak)), Lit ''** engagements.''],
          [Lit ''2. The lowest engagement was observed on **'', Day (ds ! low),
           Lit ''** with **'', Whole (sint (es ! low)), Lit ''** engagements.''],
          [Lit ''3. The average daily engagement over the period is approximately **'',
           Thousands0 avg_engagements, Lit ''**.'']]))))"

text \<open>Lines 47 to 53.\<close>

definition insights_bar_platform :: "summary \<Rightarrow> error + sentence list" where
  "insights_bar_platform data =
     bnd (iloc data 0 (col_label ''platform'')) (\<lambda>p0.
     bnd (iloc data 0 col_engagements) (\<lambda>e0.
     bnd (if nrows data > 1
          then bnd (iloc data 1 (col_label ''platform'')) (\<lambda>p1.
               bnd (iloc data 1 col_engagements) (\<lambda>e1.
               Inr [if nrows data > 1
                    then [Lit ''2. **'', Label p1,
                          Lit ''** is the second most engaging platform with **'', Whole (sint e1),
                          Lit ''** engagements, significantly less than the top platform.'']
                    else []]))
          else Inr []) (\<lambda>second.
     bnd (col_engagements data) (\<lambda>es.
     let total_engagements = sum_list es in
     Inr ([[Lit ''1. **'', Label p0, Lit ''** is the dominant platform, contributing **'',
            Whole (sint e0), Lit ''** engagements.'']]
          @ second
          @ [[Lit ''3. These platforms collectively generated **'', Whole (sint total_engagements),
              Lit ''** engagements, highlighting their importance in the campaign's reach.'']])))))"

text \<open>Lines 55 to 60.\<close>

definition insights_pie_media_type :: "summary \<Rightarrow> error + sentence list" where
  "insights_pie_media_type data =
     bnd (iloc data 0 (col_label ''media_type'')) (\<lambda>m0.
     bnd (iloc data 0 col_percentage) (\<lambda>q0.
     bnd (if nrows data > 1
          then bnd (iloc data 1 (col_label ''media_type'')) (\<lambda>m1.
               bnd (iloc data 1 col_percentage) (\<lambda>q1.
               Inr [if nrows data > 1
                    then [Lit ''2. **'', Label m1,
                          Lit ''** is the second most used media type, making up **'',
                          Percent1 q1, Lit ''%** of the content.'']
                    else []]))
          else Inr []) (\<lambda>second.
     Inr ([[Lit ''1. **'', Label m0,
            Lit ''** is the most prevalent media type, accounting for **'', Percent1 q0,
            Lit ''%** of the content.'']]
          @ second
          @ [[Lit ''3. The mix of media types indicates a diverse content strategy, with a strong reliance on **'',
              Label m0, Lit ''**.'']]))))"

text \<open>Lines 62 to 67.\<close>

definition insights_bar_location :: "summary \<Rightarrow> error + sentence list" where
  "insights_bar_location data =
     bnd (iloc data 0 (col_label ''location'')) (\<lambda>l0.
     bnd (iloc data 0 col_engagements) (\<lambda>e0.
     bnd (if nrows data > 1
          then bnd (iloc data 1 (col_label ''location'')) (\<lambda>l1.
               bnd (iloc data 1 col_engagements) (\<lambda>e1.
               Inr [if nrows data > 1
                    then [Lit ''2. **'', Label l1, Lit ''** follows with **'', Whole (sint e1),
                          Lit ''** engagements, suggesting a strong presence in these two regions.'']
                    else []]))
          else Inr []) (\<lambda>second.
     Inr ([[Lit ''1. **'', Label l0, Lit ''** is the top location for engagements, with **'',
            Whole (sint e0), Lit ''** engagements.'']]
          @ second
          @ [[Lit ''3. The top 5 locations collectively represent a significant portion of the total campaign reach and engagement.'']]))))"

text \<open>
  \<open>generate_insights\<close>, lines 27 to 68. \<open>Inl\<close> is the exception the call raises,
  \<open>Inr\<close> the list \<open>insights\<close> it returns.
\<close>

definition generate_insights :: "string \<Rightarrow> summary \<Rightarrow> string \<Rightarrow> error + sentence list" where
  "generate_insights chart_title data chart_type =
     (if chart_type = ''pie_sentiment'' then insights_pie_sentiment data
      else if chart_type = ''line_engagement'' then insights_line_engagement data
      else if chart_type = ''bar_platform'' then insights_bar_platform data
      else if chart_type = ''pie_media_type'' then insights_pie_media_type data
      else if chart_type = ''bar_location'' then insights_bar_location data
      else Inr [])"

text \<open>
  The chart kind that the page passes with each table (lines 96, 110, 124, 139, 153).
\<close>

fun chart_type_of :: "summary \<Rightarrow> string" where
  "chart_type_of (SentimentCounts rs) = ''pie_sentiment''"
| "chart_type_of (EngagementsDaily rs) = ''line_engagement''"
| "chart_type_of (PlatformEngagements rs) = ''bar_platform''"
| "chart_type_of (MediaTypeCounts rs) = ''pie_media_type''"
| "chart_type_of (LocationEngagements rs) = ''bar_location''"

section \<open>Valid input\<close>

text \<open>
  The headers that the page asks for (the message of line 83 and the list of lines 162
  to 167). A column name is the same header when it differs at most in letter case and
  in surrounding whitespace.
\<close>

definition required_headers :: "string list" where
  "required_headers =
     [''Date'', ''Platform'', ''Sentiment'', ''Location'', ''Engagements'', ''Media Type'']"

definition same_header :: "string \<Rightarrow> string \<Rightarrow> bool" where
  "same_header h n = (py_lower (py_strip n) = py_lower h)"

section \<open>Example inputs\<close>

text \<open>
  The inputs at which the theorems below are evaluated. \<open>march_first\<close> stands for
  a date parser that reads \<open>2024-03-01\<close> and nothing else.
\<close>

definition march_first :: "cell list \<Rightarrow> cell \<Rightarrow> int option" where
  "march_first col c =
     (case c of Str s \<Rightarrow> if s = ''2024-03-01'' then Some 1709251200000000000 else None
      | _ \<Rightarrow> None)"

definition upload_with_note :: dataframe where
  "upload_with_note =
     [('' Date'', [Str ''2024-03-01'', Str ''not-a-date'']),
      (''Engagements'', [NaN, Num 5]),
      (''Campaign Note'', [Str ''launch'', NaN])]"

definition upload_with_text_engagements :: dataframe where
  "upload_with_text_engagements =
     [(''Date'', [Str ''2024-03-01'']), (''Engagements'', [Str ''abc''])]"

definition upload_six_headers :: dataframe where
  "upload_six_headers =
     [(''  DATE'', []), (''platform '', []), (''Sentiment'', []), (''LOCATION'', []),
      (''engagements'', []), ('' Media Type'', [])]"

definition three_posts :: "post list" where
  "three_posts =
     [\<lparr>date = Some 1, platform = Some ''FB'', sentiment = Some ''Positive'',
        location = Some ''Cairo'', engagements = 10, media_type = Some ''Image''\<rparr>,
      \<lparr>date = Some 1, platform = Some ''IG'', sentiment = Some ''Negative'',
        location = Some ''Cairo'', engagements = 5, media_type = Some ''Video''\<rparr>,
      \<lparr>date = Some 2, platform = Some ''FB'', sentiment = Some ''Positive'',
        location = Some ''Giza'', engagements = 20, media_type = Some ''Image''\<rparr>]"





section \<open>Lemmas on \<open>clean_data\<close>\<close>

lemma assign_absent: "name \<notin> set (columns df) \<Longrightarrow> assign name f df = df"
  by (induction df) (auto simp: assign_def columns_def)

lemma columns_assign: "columns (assign name f df) = columns df"
  by (induction df) (auto simp: assign_def columns_def)

lemma clean_data_Inr:
  assumes "clean_data parse df = Inr d"
  shows "d = map (\<lambda>nc. (normalize_name (fst nc),
                     if normalize_name (fst nc) = ''date'' then to_datetime parse (snd nc)
                     else if normalize_name (fst nc) = ''engagements''
                          then fillna (Num 0) (snd nc) else snd nc)) df"
proof -
  define df1 where "df1 = map (\<lambda>(n, col). (normalize_name n, col)) df"
  have d: "d = assign ''engagements'' (fillna (Num 0)) (assign ''date'' (to_datetime parse) df1)"
    using assms assign_absent[of "''date''" df1] 
      assign_absent[of "''engagements''" "assign ''date'' (to_datetime parse) df1"]
    by (auto simp: clean_data_def Let_def df1_def[symmetric] columns_assign split: if_splits)
  show ?thesis unfolding d df1_def
    by (auto simp: assign_def split_def)
qed


lemma clean_data_returns:
  "count_list (map normalize_name (columns df)) ''date'' \<le> 1 \<Longrightarrow> \<exists>d. clean_data parse df = Inr d"
  by (auto simp: clean_data_def Let_def columns_def comp_def split_def split: if_splits)

lemma isspace_lower: "py_isspace c \<Longrightarrow> py_lower_char c = c"
  by (auto simp: py_isspace_def py_lower_char_def Let_def)

lemma dropWhile_pad:
  "\<forall>c\<in>set pre. P c \<Longrightarrow> xs \<noteq> [] \<Longrightarrow> \<not> P (hd xs) \<Longrightarrow> dropWhile P (pre @ xs) = xs"
  by (cases xs) (simp_all add: dropWhile_append2)

lemma strip_pad:
  assumes "\<forall>c\<in>set pre. py_isspace c" "\<forall>c\<in>set post. py_isspace c"
    "body \<noteq> []" "\<not> py_isspace (hd body)" "\<not> py_isspace (last body)"
  shows "py_strip (pre @ body @ post) = body"
proof -
  have 1: "dropWhile py_isspace (pre @ body @ post) = body @ post"
    using assms dropWhile_pad[of pre py_isspace "body @ post"] by simp
  have 2: "dropWhile py_isspace (rev post @ rev body) = rev body"
    using assms dropWhile_pad[of "rev post" py_isspace "rev body"] by (simp add: hd_rev)
  show ?thesis by (simp add: py_strip_def 1 2)
qed

text \<open>
  A header written in another letter case, with whitespace before and after it, is the
  same header.
\<close>

lemma same_header_pad:
  assumes "\<forall>c\<in>set pre. py_isspace c" "\<forall>c\<in>set post. py_isspace c"
    "py_lower body = py_lower h" "h \<noteq> []"
    "\<not> py_isspace (py_lower_char (hd h))" "\<not> py_isspace (py_lower_char (last h))"
  shows "same_header h (pre @ body @ post)"
proof -
  have b: "body \<noteq> []" using assms(3,4) by (auto simp: py_lower_def)
  have "py_lower_char (hd body) = py_lower_char (hd h)"
    using assms(3,4) b by (metis hd_map py_lower_def)
  then have hd: "\<not> py_isspace (hd body)"
    using assms(5) isspace_lower[of "hd body"] by auto
  have "py_lower_char (last body) = py_lower_char (last h)"
    using assms(3,4) b by (metis last_map py_lower_def)
  then have lst: "\<not> py_isspace (last body)"
    using assms(6) isspace_lower[of "last body"] by auto
  have "py_strip (pre @ body @ post) = body"
    using assms(1,2) b hd lst by (rule strip_pad)
  then show ?thesis by (simp add: same_header_def assms(3))
qed

lemma required_strip: "h \<in> set required_headers \<Longrightarrow> py_strip h = h"
  by (auto simp: required_headers_def py_strip_def py_isspace_def)

lemma same_header_normalize:
  "same_header h n \<Longrightarrow> h \<in> set required_headers \<Longrightarrow> normalize_name n = normalize_name h \<and> normalize_name_app n = normalize_name_app h"
  by (simp add: same_header_def normalize_name_def normalize_name_app_def required_strip)

lemma normalize_required: "map normalize_name required_headers = required_columns"
  by code_simp

lemma normalize_app_required: "map normalize_name_app required_headers = required_columns"
  by code_simp

lemma valid_names:
  assumes "list_all2 same_header hs ns" "mset hs = mset required_headers"
  shows "mset (map normalize_name ns) = mset required_columns \<and> mset (map normalize_name_app ns) = mset required_columns"
proof -
  have hs: "set hs \<subseteq> set required_headers" using assms(2) by (metis set_mset_mset subset_refl)
  have "map normalize_name ns = map normalize_name hs \<and> map normalize_name_app ns = map normalize_name_app hs"
    using assms(1) hs by (induction hs ns rule: list_all2_induct) (auto dest: same_header_normalize) 
  then show ?thesis using assms(2) normalize_required normalize_app_required
    by (metis mset_map)
qed



section \<open>Lemmas on the aggregations\<close>


lemma mset_sort_desc: "mset (sort_desc f xs) = mset xs"
  by (simp add: sort_desc_def)

lemma set_sort_desc: "set (sort_desc f xs) = set xs"
  by (simp add: sort_desc_def)

lemma sum_list_sort_desc:
  fixes g :: "'r \<Rightarrow> 'a::comm_monoid_add"
  shows "sum_list (map g (sort_desc f xs)) = sum_list (map g xs)"
proof -
  have "sum_mset (mset (map g (sort_desc f xs))) = sum_mset (mset (map g xs))"
    by (simp add: mset_sort_desc)
  then show ?thesis by (simp only: sum_mset_sum_list)
qed





lemma distinct_first_seen: "distinct (first_seen xs)" and set_first_seen: "set (first_seen xs) = set xs"
  by (simp_all add: first_seen_def)

lemma sum_counts: "sum_list (map (count_list ys) (first_seen ys)) = length ys"
proof -
  have "sum_list (map (count_list ys) (first_seen ys)) = sum (count_list ys) (set ys)"
    by (simp add: sum_list_distinct_conv_sum_set distinct_first_seen set_first_seen)
  also have "\<dots> = length ys" by (rule sum_count_set) simp_all
  finally show ?thesis .
qed

lemma value_counts_sum: "sum_list (map snd (value_counts xs)) = length (dropna xs)"
  by (simp add: value_counts_def Let_def sum_list_sort_desc comp_def sum_counts)

lemma value_counts_set:
  "set (value_counts xs) = (\<lambda>k. (k, count_list (dropna xs) k)) ` set (dropna xs)"
  by (simp add: value_counts_def Let_def set_sort_desc set_first_seen)


lemma value_counts_empty: "value_counts xs = [] \<longleftrightarrow> dropna xs = []"
  by (metis value_counts_set image_is_empty set_empty)








lemma groupby_sum_sorted: "sorted (map fst (groupby_sum key val ds))"
  by (simp add: groupby_sum_def comp_def)

lemma percentage_sum:
  "sum_list (map (\<lambda>r. snd (snd r)) (with_percentage t))
     = (if sum_list (map snd t) = 0 then 0 else 100)"
proof -
  define s where "s = sum_list (map snd t)"
  have "sum_list (map (\<lambda>r. snd (snd r)) (with_percentage t))
      = sum_list (map (\<lambda>r. (of_nat (snd r) / of_nat s) * (100::rat)) t)"
    by (simp add: with_percentage_def s_def comp_def split_def)
  also have "\<dots> = (of_nat (sum_list (map snd t)) / of_nat s) * 100"
    by (induction t) (simp_all add: add_divide_distrib distrib_right)
  finally show ?thesis by (simp add: s_def)
qed

lemma with_percentage_empty: "with_percentage t = [] \<longleftrightarrow> t = []"
  by (simp add: with_percentage_def)

lemma counts_percentage_sum:
  "sum_list (map (\<lambda>r. snd (snd r)) (with_percentage (value_counts xs)))
     = (if with_percentage (value_counts xs) = [] then 0 else 100)"
  by (simp add: percentage_sum value_counts_sum with_percentage_empty value_counts_empty)


section \<open>Lemmas on \<open>generate_insights\<close>\<close>

lemma percent_of_returns:
  "percent_of l (SentimentCounts rs) t =
     Inr (if t > 0
          then (of_nat (sum_list (map snd (filter (\<lambda>r. fst r = l)
                  (zip (map fst rs) (map (\<lambda>r. fst (snd r)) rs))))) / of_nat t) * 100
          else 0)"
  by (simp add: percent_of_def bnd_def)

text \<open>
  On a table with no rows, whatever its columns, each of the five branches raises.
\<close>

lemma empty_table_raises:
  assumes "nrows data = 0"
    and "chart_type \<in> {''pie_sentiment'', ''line_engagement'', ''bar_platform'',
                          ''pie_media_type'', ''bar_location''}"
  shows "generate_insights chart_title data chart_type
           \<in> {Inl IndexError, Inl KeyError, Inl ValueError}"
proof (cases data)
  case (SentimentCounts rs)
  then show ?thesis using assms
    by (auto simp: generate_insights_def insights_pie_sentiment_def insights_line_engagement_def
        insights_bar_platform_def insights_pie_media_type_def insights_bar_location_def
        bnd_def iloc_def percent_of_def)
next
  case (EngagementsDaily rs)
  then show ?thesis using assms
    by (auto simp: generate_insights_def insights_pie_sentiment_def insights_line_engagement_def
        insights_bar_platform_def insights_pie_media_type_def insights_bar_location_def
        bnd_def iloc_def idxmax_def)
next
  case (PlatformEngagements rs)
  then show ?thesis using assms
    by (auto simp: generate_insights_def insights_pie_sentiment_def insights_line_engagement_def
        insights_bar_platform_def insights_pie_media_type_def insights_bar_location_def
        bnd_def iloc_def idxmax_def)
next
  case (MediaTypeCounts rs)
  then show ?thesis using assms
    by (auto simp: generate_insights_def insights_pie_sentiment_def insights_line_engagement_def
        insights_bar_platform_def insights_pie_media_type_def insights_bar_location_def
        bnd_def iloc_def percent_of_def)
next
  case (LocationEngagements rs)
  then show ?thesis using assms
    by (auto simp: generate_insights_def insights_pie_sentiment_def insights_line_engagement_def
        insights_bar_platform_def insights_pie_media_type_def insights_bar_location_def
        bnd_def iloc_def idxmax_def)
qed

lemma replace_char_by_char: "py_replace_char a [b] s = map (\<lambda>c. if c = a then b else c) s"
  by (induction s) (simp_all add: py_replace_char_def)

lemma replace_char_by_nothing: "py_replace_char a [] s = filter (\<lambda>c. c \<noteq> a) s"
  by (induction s) (simp_all add: py_replace_char_def)




section \<open>The claims\<close>

subsection \<open>C1: the empty Summary Table\<close>

text \<open>
  C1 asks that, for the empty Summary Table, \<open>generate_insights\<close> with each of the five
  chart kinds returns an empty or "no data" set of sentences and never raises. The code
  does not: for a Dataset with no rows the five tables are empty, and each of the five
  calls that the page makes raises, \<open>IndexError\<close> from \<open>data.iloc[0]\<close> and
  \<open>ValueError\<close> from \<open>idxmax\<close> on the empty series. The division of lines 32 to 34 is
  guarded for this case and the second row is guarded by \<open>len(data) > 1\<close>; the first
  row is not.
\<close>

theorem empty_table_raises_at_page:
  "generate_insights ''Sentiment Breakdown''
     (SentimentCounts (sentiment_counts [])) ''pie_sentiment'' = Inl IndexError
   \<and> generate_insights ''Engagement Trend Over Time''
     (EngagementsDaily (df_engagements_daily [])) ''line_engagement'' = Inl ValueError
   \<and> generate_insights ''Engagements by Platform''
     (PlatformEngagements (platform_engagements [])) ''bar_platform'' = Inl IndexError
   \<and> generate_insights ''Media Type Mix''
     (MediaTypeCounts (media_type_counts [])) ''pie_media_type'' = Inl IndexError
   \<and> generate_insights ''Top 5 Locations by Engagements''
     (LocationEngagements (location_engagements [])) ''bar_location'' = Inl IndexError"
  by code_simp

subsection \<open>C2: the top locations\<close>




subsection \<open>C3: the column names\<close>

text \<open>
  C3, as amended. The Normalizer renames every column: \<open>streamlit_app.py\<close> trims
  whitespace, lower-cases, replaces every space with an underscore and deletes every
  period; \<open>app.py\<close> does the same and leaves the periods in place. For a valid input,
  whose column names are the six headers Date, Platform, Sentiment, Location,
  Engagements and Media Type in any order, letter case and surrounding whitespace,
  \<open>clean_data\<close> returns a frame with exactly the six canonical column names (and so does
  the renaming of \<open>app.py\<close>).
\<close>

theorem normalizer_columns:
  "(\<forall>d. clean_data parse df = Inr d \<longrightarrow> columns d = map normalize_name (columns df))
   \<and> normalize_name n = filter (\<lambda>c. c \<noteq> CHR ''.'')
        (map (\<lambda>c. if c = CHR '' '' then CHR ''_'' else c) (py_lower (py_strip n)))
   \<and> normalize_name_app n =
        map (\<lambda>c. if c = CHR '' '' then CHR ''_'' else c) (py_lower (py_strip n))
   \<and> (list_all2 same_header hs (columns df) \<and> mset hs = mset required_headers \<longrightarrow>
        (\<exists>d. clean_data parse df = Inr d \<and> mset (columns d) = mset required_columns)
        \<and> mset (map normalize_name_app (columns df)) = mset required_columns)"
proof -
  have 1: "\<forall>d. clean_data parse df = Inr d \<longrightarrow> columns d = map normalize_name (columns df)"
  proof (intro allI impI)
    fix d assume "clean_data parse df = Inr d"
    from clean_data_Inr[OF this] show "columns d = map normalize_name (columns df)"
      by (simp add: columns_def comp_def)
  qed
  have 2: "normalize_name n = filter (\<lambda>c. c \<noteq> CHR ''.'')
        (map (\<lambda>c. if c = CHR '' '' then CHR ''_'' else c) (py_lower (py_strip n)))"
    by (simp add: normalize_name_def replace_char_by_char replace_char_by_nothing)
  have 3: "normalize_name_app n =
        map (\<lambda>c. if c = CHR '' '' then CHR ''_'' else c) (py_lower (py_strip n))"
    by (simp add: normalize_name_app_def replace_char_by_char)
  have 4: "(\<exists>d. clean_data parse df = Inr d \<and> mset (columns d) = mset required_columns)
        \<and> mset (map normalize_name_app (columns df)) = mset required_columns"
    if v: "list_all2 same_header hs (columns df)" "mset hs = mset required_headers"
  proof -
    from valid_names[OF v]
    have m: "mset (map normalize_name (columns df)) = mset required_columns"
      and ma: "mset (map normalize_name_app (columns df)) = mset required_columns"
      by simp_all
    have "count_list (map normalize_name (columns df)) ''date''
            = count (mset required_columns) ''date''"
      using m by (metis count_mset)
    also have "\<dots> = 1" by (simp add: required_columns_def)
    finally obtain d where d: "clean_data parse df = Inr d"
      using clean_data_returns[of df parse] by auto
    then have "columns d = map normalize_name (columns df)" using 1 by blast
    then show ?thesis using d m ma by auto
  qed
  show ?thesis using 1 2 3 4 by blast
qed

theorem normalizer_columns_witness:
  "list_all2 same_header required_headers (columns upload_six_headers)
   \<and> (\<exists>d. clean_data march_first upload_six_headers = Inr d
          \<and> mset (columns d) = mset required_columns)"
proof -
  have v: "list_all2 same_header required_headers (columns upload_six_headers)"
    by code_simp
  show ?thesis
    using normalizer_columns[of march_first upload_six_headers "''x''" required_headers] v
    by blast
qed

text \<open>
  The claim as stated replaces periods with underscores. The code deletes them: the
  header \<open>Media.Type\<close> becomes \<open>mediatype\<close>, and the renaming of the claim would give
  \<open>media_type\<close>.
\<close>

theorem period_is_deleted:
  "normalize_name ''Media.Type'' \<noteq> spec_rename ''Media.Type''"
  by code_simp

subsection \<open>C4: a missing column\<close>




subsection \<open>C5: cells that do not parse\<close>

text \<open>
  C5, as amended. \<open>clean_data\<close> keeps every row: each column keeps its length. In the
  date column a value with no reading as a date becomes the null date \<open>NaT\<close>; in the
  engagements column a missing value becomes 0 and every other value, a text that is
  not a number included, stays as it is; the cells of the other columns are unchanged.
\<close>

theorem clean_data_cells:
  assumes "clean_data parse df = Inr d" and "j < length df" and "i < length (snd (df ! j))"
  shows "length d = length df \<and> length (snd (d ! j)) = length (snd (df ! j))
    \<and> (fst (d ! j) = ''date'' \<longrightarrow>
         snd (d ! j) ! i = (case parse (snd (df ! j)) (snd (df ! j) ! i) of
                              Some t \<Rightarrow> Timestamp t | None \<Rightarrow> NaT))
    \<and> (fst (d ! j) = ''engagements'' \<longrightarrow>
         snd (d ! j) ! i = (if isna (snd (df ! j) ! i) then Num 0 else snd (df ! j) ! i))
    \<and> (fst (d ! j) \<noteq> ''date'' \<and> fst (d ! j) \<noteq> ''engagements'' \<longrightarrow>
         snd (d ! j) ! i = snd (df ! j) ! i)"
  unfolding clean_data_Inr[OF assms(1)] using assms(2,3)
  by (simp add: to_datetime_def fillna_def)

theorem clean_data_cells_witness:
  "clean_data march_first upload_with_note =
     Inr [(''date'', [Timestamp 1709251200000000000, NaT]),
          (''engagements'', [Num 0, Num 5]),
          (''campaign_note'', [Str ''launch'', NaN])]
   \<and> march_first (snd (upload_with_note ! 0)) (snd (upload_with_note ! 0) ! 1) = None
   \<and> isna (snd (upload_with_note ! 1) ! 0)"
proof -
  have c: "clean_data march_first upload_with_note =
     Inr [(''date'', [Timestamp 1709251200000000000, NaT]),
          (''engagements'', [Num 0, Num 5]),
          (''campaign_note'', [Str ''launch'', NaN])]"
    by code_simp
  have j0: "0 < length upload_with_note" and i1: "1 < length (snd (upload_with_note ! 0))"
    and j1: "1 < length upload_with_note" and i0: "0 < length (snd (upload_with_note ! 1))"
    by (simp_all add: upload_with_note_def)
  have p: "march_first (snd (upload_with_note ! 0)) (snd (upload_with_note ! 0) ! 1) = None"
    by (simp add: upload_with_note_def march_first_def)
  have n: "isna (snd (upload_with_note ! 1) ! 0)"
    by (simp add: upload_with_note_def isna_def)
  show ?thesis
    using clean_data_cells[OF c j0 i1] clean_data_cells[OF c j1 i0] c p n by simp
qed

text \<open>
  The claim as stated turns an unparseable engagements value into 0. \<open>fillna(0)\<close>
  fills the missing values only: the text \<open>abc\<close> in the engagements column is still
  there after \<open>clean_data\<close>.
\<close>

theorem unparseable_engagements_kept:
  "clean_data march_first upload_with_text_engagements
     = Inr [(''date'', [Timestamp 1709251200000000000]), (''engagements'', [Str ''abc''])]"
  by code_simp

subsection \<open>C6: the number of sentences\<close>

text \<open>
  C6, as amended: for a non-empty Summary Table passed with its own chart kind,
  \<open>generate_insights\<close> returns exactly 3 sentences for the sentiment and the trend
  table; for the platform, the media-type and the location table it returns 3
  sentences when the table has a second row and 2 when it has one row only.
\<close>

theorem sentence_count:
  assumes "nrows data > 0"
  shows "map_sum id length (generate_insights chart_title data (chart_type_of data))
       = Inr (case data of SentimentCounts rs \<Rightarrow> 3 | EngagementsDaily rs \<Rightarrow> 3
              | _ \<Rightarrow> if nrows data > 1 then 3 else 2)"
proof (cases data)
  case (SentimentCounts rs)
  then show ?thesis using assms
    by (simp add: generate_insights_def insights_pie_sentiment_def percent_of_returns
        Let_def iloc_def bnd_def)
next
  case (EngagementsDaily rs)
  then show ?thesis using assms
    by (auto simp: generate_insights_def insights_line_engagement_def
        bnd_def idxmax_def idxmin_def)
next
  case (PlatformEngagements rs)
  then show ?thesis using assms
    by (auto simp: generate_insights_def insights_bar_platform_def bnd_def iloc_def)
next
  case (MediaTypeCounts rs)
  then show ?thesis using assms
    by (auto simp: generate_insights_def insights_pie_media_type_def bnd_def iloc_def)
next
  case (LocationEngagements rs)
  then show ?thesis using assms
    by (auto simp: generate_insights_def insights_bar_location_def bnd_def iloc_def)
qed

theorem sentence_count_witness:
  "map_sum id length (generate_insights ''Top 5 Locations by Engagements''
      (LocationEngagements [(''Giza'', 20), (''Cairo'', 15)]) ''bar_location'') = Inr 3
   \<and> map_sum id length (generate_insights ''Top 5 Locations by Engagements''
      (LocationEngagements [(''Giza'', 20)]) ''bar_location'') = Inr 2
   \<and> map_sum id length (generate_insights ''Sentiment Breakdown''
      (SentimentCounts [(''Positive'', 1, 100)]) ''pie_sentiment'') = Inr 3"
  using sentence_count[of "LocationEngagements [(''Giza'', 20), (''Cairo'', 15)]"
      "''Top 5 Locations by Engagements''"]
    sentence_count[of "LocationEngagements [(''Giza'', 20)]"
      "''Top 5 Locations by Engagements''"]
    sentence_count[of "SentimentCounts [(''Positive'', 1, 100)]" "''Sentiment Breakdown''"]
  by simp

text \<open>
  The claim as stated gives the platform table exactly 3 sentences. With one platform
  the page shows 2: the guard \<open>len(data) > 1\<close> of line 49 leaves the second out.
\<close>

theorem one_platform_two_sentences:
  "map_sum id length
     (generate_insights ''Engagements by Platform''
        (PlatformEngagements [(''FB'', 30)]) ''bar_platform'')
   = Inr 2"
  by code_simp

subsection \<open>C7: the percentages\<close>

text \<open>
  C7: in exact arithmetic the percentage column of the sentiment table and of the
  media-type table sums to 100 when the table is non-empty; on the empty table the
  column is empty, with sum 0, and the percentages that \<open>generate_insights\<close> computes
  for the sentiment table (lines 32 to 34) are 0.
\<close>

theorem percentages_sum_to_100:
  "sum_list (map (\<lambda>r. snd (snd r)) (sentiment_counts df))
     = (if sentiment_counts df = [] then 0 else 100)
   \<and> sum_list (map (\<lambda>r. snd (snd r)) (media_type_counts df))
     = (if media_type_counts df = [] then 0 else 100)
   \<and> (sentiment_counts df = [] \<longrightarrow>
        percent_of l (SentimentCounts (sentiment_counts df))
          (sum_list (map (\<lambda>r. fst (snd r)) (sentiment_counts df))) = Inr 0)"
  by (simp add: sentiment_counts_def media_type_counts_def counts_percentage_sum
      percent_of_returns)

theorem percentages_sum_to_100_witness:
  "sentiment_counts three_posts = [(''Positive'', 2, 200 / 3), (''Negative'', 1, 100 / 3)]
   \<and> sum_list (map (\<lambda>r. snd (snd r)) (sentiment_counts three_posts)) = 100
   \<and> sentiment_counts [] = []
   \<and> percent_of ''Positive'' (SentimentCounts (sentiment_counts []))
          (sum_list (map (\<lambda>r. fst (snd r)) (sentiment_counts []))) = Inr 0"
proof -
  have v: "sentiment_counts three_posts
             = [(''Positive'', 2, 200 / 3), (''Negative'', 1, 100 / 3)]"
    by code_simp
  have ne: "sentiment_counts three_posts \<noteq> []" unfolding v by simp
  have e: "sentiment_counts [] = []" by code_simp
  show ?thesis
    using percentages_sum_to_100[of three_posts]
      percentages_sum_to_100[of "[]" "''Positive''"] ne e v
    by simp
qed

subsection \<open>C8: the totals\<close>




subsection \<open>C9: the other columns\<close>

text \<open>
  C9: \<open>clean_data\<close> removes no column, and the values of every column that is not
  labelled \<open>date\<close> or \<open>engagements\<close> after the renaming, an unknown extra column
  included, are unchanged.
\<close>

theorem clean_data_frame:
  assumes "clean_data parse df = Inr d"
  shows "length d = length df
    \<and> (\<forall>j<length df. fst (d ! j) = normalize_name (fst (df ! j))
          \<and> (fst (d ! j) \<noteq> ''date'' \<and> fst (d ! j) \<noteq> ''engagements''
               \<longrightarrow> snd (d ! j) = snd (df ! j)))"
  unfolding clean_data_Inr[OF assms] by simp

theorem clean_data_frame_witness:
  "clean_data march_first upload_with_note =
     Inr [(''date'', [Timestamp 1709251200000000000, NaT]),
          (''engagements'', [Num 0, Num 5]),
          (''campaign_note'', [Str ''launch'', NaN])]
   \<and> length upload_with_note = 3
   \<and> snd ([(''date'', [Timestamp 1709251200000000000, NaT]),
           (''engagements'', [Num 0, Num 5]),
           (''campaign_note'', [Str ''launch'', NaN])] ! 2) = snd (upload_with_note ! 2)"
proof -
  let ?d = "[(''date'', [Timestamp 1709251200000000000, NaT]),
             (''engagements'', [Num 0, Num 5]),
             (''campaign_note'', [Str ''launch'', NaN])]"
  have c: "clean_data march_first upload_with_note = Inr ?d"
    by code_simp
  have l: "length upload_with_note = 3" by (simp add: upload_with_note_def)
  have "2 < length upload_with_note" using l by simp
  with clean_data_frame[OF c, THEN conjunct2, rule_format, of 2]
  have "fst (?d ! 2) \<noteq> ''date'' \<and> fst (?d ! 2) \<noteq> ''engagements''
          \<longrightarrow> snd (?d ! 2) = snd (upload_with_note ! 2)"
    by blast
  then have "snd (?d ! 2) = snd (upload_with_note ! 2)" by simp
  then show ?thesis using c l by simp
qed

subsection \<open>C10: an unknown chart kind\<close>

text \<open>
  C10: for every table and every chart kind other than the five that the function
  knows, \<open>generate_insights\<close> returns the empty list and does not fail.
\<close>

theorem unknown_chart_type:
  assumes "chart_type \<notin> {''pie_sentiment'', ''line_engagement'', ''bar_platform'',
                          ''pie_media_type'', ''bar_location''}"
  shows "generate_insights chart_title data chart_type = Inr []"
  using assms by (simp add: generate_insights_def)

theorem unknown_chart_type_witness:
  "''bar_sentiment'' \<notin> {''pie_sentiment'', ''line_engagement'', ''bar_platform'',
                          ''pie_media_type'', ''bar_location''}
   \<and> generate_insights ''Sentiment Breakdown'' (SentimentCounts []) ''bar_sentiment'' = Inr []"
proof -
  have h: "''bar_sentiment'' \<notin> {''pie_sentiment'', ''line_engagement'', ''bar_platform'',
                          ''pie_media_type'', ''bar_location''}" by simp
  show ?thesis using h unknown_chart_type[OF h] by simp
qed

end
